theory Spec2Isabelle
  imports Main
begin

section \<open>Values, errors and the state of the process\<close>

text \<open>
  The program is one Python module, \<^verbatim>\<open>app.py\<close>:
  \<^verbatim>\<open>
  app = Flask(__name__)

  @app.route('/')
  def hello():
      return "Hello, World! This is version 1.0!"

  if __name__ == "__main__":
      port = int(os.environ.get("PORT", 5000))
      app.run(debug=True, host='0.0.0.0', port=port)
  \<close>
  Two kinds of Python value occur: strings (the greeting, the values of the environment)
  and integers (the default \<^verbatim>\<open>5000\<close>, the port). A string is a list of
  characters with code points below 256.
\<close>

datatype pyval = PyStr string | PyInt int

text \<open>
  The exceptions that occur: \<^verbatim>\<open>ValueError\<close> from \<^verbatim>\<open>int\<close>, \<^verbatim>\<open>TypeError\<close> for a view
  result that is no response, \<^verbatim>\<open>OverflowError\<close> from the socket layer, and the
  framework's \<^verbatim>\<open>NotFound\<close>.
\<close>

datatype error = ValueError | TypeError | OverflowError | NotFound

text \<open>
  The only effect of the module on the outside is the call of \<^verbatim>\<open>app.run\<close>, which
  asks the framework to listen on a host and a port. The state threaded through the
  functions below is the module-level name \<^verbatim>\<open>port\<close> (unbound until it is assigned)
  and the log of effects so far. The other module-level object, the application
  \<^verbatim>\<open>app\<close>, is built by the registrations of lines 4 and 6, each of which returns
  the application it has changed.
\<close>

datatype effect = Listen string int bool

record proc =
  port :: "int option"
  trace :: "effect list"

section \<open>Python's \<^verbatim>\<open>int\<close> on a string\<close>

text \<open>
  \<^verbatim>\<open>int(s)\<close> in base ten: white space on both sides is skipped, one sign may follow,
  then decimal digits, where single underscores may stand between digits. White space for
  this conversion is tab, line feed, vertical tab, form feed, carriage return and space,
  and the two white-space code points of Latin-1 (next line, no-break space).
\<close>

definition py_isspace :: "char \<Rightarrow> bool" where
  "py_isspace c \<longleftrightarrow> (of_char c :: nat) \<in> {9, 10, 11, 12, 13, 32, 133, 160}"

definition py_isdigit :: "char \<Rightarrow> bool" where
  "py_isdigit c \<longleftrightarrow> 48 \<le> (of_char c :: nat) \<and> (of_char c :: nat) \<le> 57"

definition digit_value :: "char \<Rightarrow> int" where
  "digit_value c = int (of_char c) - 48"

definition numeric :: "char \<Rightarrow> bool" where
  "numeric c \<longleftrightarrow> py_isdigit c \<or> c = CHR ''_''"

definition py_isalpha :: "char \<Rightarrow> bool" where
  "py_isalpha c \<longleftrightarrow> (65 \<le> (of_char c :: nat) \<and> (of_char c :: nat) \<le> 90) \<or>
     (97 \<le> (of_char c :: nat) \<and> (of_char c :: nat) \<le> 122)"

text \<open>The scan of the digit run: no two underscores in a row, none at the end.\<close>

fun underscores_ok :: "string \<Rightarrow> bool" where
  "underscores_ok [] = True"
| "underscores_ok [c] = (c \<noteq> CHR ''_'')"
| "underscores_ok (c # d # cs) =
     (\<not> (c = CHR ''_'' \<and> d = CHR ''_'') \<and> underscores_ok (d # cs))"

definition decimal_value :: "string \<Rightarrow> int" where
  "decimal_value ds = foldl (\<lambda>a c. 10 * a + digit_value c) 0 ds"

text \<open>
  The interpreter bounds the number of digits of a string it converts: with a limit
  \<open>lim > 0\<close>, a run of more than 640 and more than \<open>lim\<close> digits is refused. The limit
  is a setting of the interpreter (4300 unless configured, 0 for none), so it is a
  parameter here. Every failure of the conversion is a \<^verbatim>\<open>ValueError\<close>.
\<close>

definition int_of_str :: "nat \<Rightarrow> string \<Rightarrow> error + int" where
  "int_of_str lim s =
     (let t = dropWhile py_isspace s;
          neg = (t \<noteq> [] \<and> hd t = CHR ''-'');
          u = (if t \<noteq> [] \<and> (hd t = CHR ''+'' \<or> hd t = CHR ''-'') then tl t else t);
          run = takeWhile numeric u;
          rest = dropWhile numeric u;
          ds = filter py_isdigit run
      in if run = [] \<or> hd run = CHR ''_'' \<or> \<not> underscores_ok run then Inl ValueError
         else if 640 < length ds \<and> 0 < lim \<and> lim < length ds then Inl ValueError
         else if dropWhile py_isspace rest \<noteq> [] then Inl ValueError
         else Inr (if neg then - decimal_value ds else decimal_value ds))"

text \<open>\<^verbatim>\<open>int(x)\<close>: an integer is returned as it is, a string is converted.\<close>

definition py_int :: "nat \<Rightarrow> pyval \<Rightarrow> error + int" where
  "py_int lim x = (case x of PyInt i \<Rightarrow> Inr i | PyStr s \<Rightarrow> int_of_str lim s)"

text \<open>
  \<^verbatim>\<open>os.environ.get(key, default)\<close>: the environment maps names to strings; an unset
  name gives the default, whatever its type.
\<close>

definition environ_get :: "(string \<rightharpoonup> string) \<Rightarrow> string \<Rightarrow> pyval \<Rightarrow> pyval" where
  "environ_get environ key dflt = (case environ key of None \<Rightarrow> dflt | Some s \<Rightarrow> PyStr s)"




definition within_limit :: "nat \<Rightarrow> nat \<Rightarrow> bool" where
  "within_limit lim k \<longleftrightarrow> k \<le> 640 \<or> lim = 0 \<or> k \<le> lim"

section \<open>The framework: requests, routes and dispatch\<close>

text \<open>
  What the module uses of Flask: an application object holding a table of URL rules and
  the view functions behind them, the registration of a rule by \<^verbatim>\<open>route\<close>, and the
  dispatch of one request. A view function may read the request and the process state,
  may raise, and returns a value. The field \<open>path\<close> of a request is the path as the
  server hands it to the framework.
\<close>

datatype http_method = GET | HEAD | POST | PUT | DELETE | PATCH | OPTIONS | TRACE | CONNECT

record request =
  request_method :: http_method
  path :: string
  query_string :: string
  headers :: "(string \<times> string) list"
  data :: string

type_synonym view = "request \<Rightarrow> proc \<Rightarrow> (error + pyval) \<times> proc"

record rule =
  rule_path :: string
  rule_methods :: "http_method list"
  endpoint :: string
  provide_automatic_options :: bool

record flask =
  url_map :: "rule list"
  view_functions :: "string \<rightharpoonup> view"

text \<open>
  A response is either made from what a view returned (status and body), or it is the
  framework's own page for an HTTP exception (an error or a redirect), whose content
  the framework chooses.
\<close>

datatype response = Response nat string | Framework_Error nat

text \<open>
  Registration. Without a list of methods a rule answers \<^verbatim>\<open>GET\<close>; \<^verbatim>\<open>OPTIONS\<close> is
  added and answered by the framework unless the list names it; \<^verbatim>\<open>HEAD\<close> is added
  to every rule that answers \<^verbatim>\<open>GET\<close>.
\<close>

definition add_url_rule ::
  "string \<Rightarrow> string \<Rightarrow> view \<Rightarrow> http_method list option \<Rightarrow> flask \<Rightarrow> flask" where
  "add_url_rule p ep f ms a =
     (let given = (case ms of None \<Rightarrow> [GET] | Some l \<Rightarrow> l);
          auto_options = (OPTIONS \<notin> set given);
          with_options = (if auto_options then given @ [OPTIONS] else given);
          with_head = (if GET \<in> set with_options \<and> HEAD \<notin> set with_options
                       then with_options @ [HEAD] else with_options)
      in a\<lparr>url_map := url_map a @
             [\<lparr>rule_path = p, rule_methods = with_head, endpoint = ep,
               provide_automatic_options = auto_options\<rparr>],
           view_functions := (view_functions a)(ep \<mapsto> f)\<rparr>)"

text \<open>
  The view behind the static rule sends a file of the folder \<^verbatim>\<open>static\<close> beside the
  module. The repository has no such folder, so the view finds no file under any name
  and raises \<^verbatim>\<open>NotFound\<close>.
\<close>

definition send_static_file :: view where
  "send_static_file req st = (Inl NotFound, st)"

text \<open>
  \<^verbatim>\<open>Flask(__name__)\<close>: the new application already has one rule, for the files of the
  static folder.
\<close>

definition Flask :: flask where
  "Flask = add_url_rule ''/static/<path:filename>'' ''static'' send_static_file None
     \<lparr>url_map = [], view_functions = Map.empty\<rparr>"

text \<open>The decorator \<^verbatim>\<open>@app.route(p)\<close> on a function: the endpoint is its name.\<close>

definition route :: "string \<Rightarrow> string \<Rightarrow> view \<Rightarrow> flask \<Rightarrow> flask" where
  "route p name f a = add_url_rule p name f None a"

text \<open>
  Matching, as Werkzeug does it. The leading slashes of a non-empty path are reduced to
  one before any rule is tried.
\<close>

definition routed_path :: "string \<Rightarrow> string" where
  "routed_path p = (if p = [] then [] else CHR ''/'' # dropWhile (\<lambda>c. c = CHR ''/'') p)"

text \<open>
  Two shapes of rule occur: plain text, which a path fits when it is equal to it, and
  text that ends in a \<^verbatim>\<open>path\<close> converter, which a path fits when it starts with the
  text and goes on with what the converter accepts: a string that is not empty, does
  not start with a slash, and has no line feed after its first character.
\<close>

definition has_converter :: "string \<Rightarrow> bool" where
  "has_converter r \<longleftrightarrow> CHR ''<'' \<in> set r"

definition rule_prefix :: "string \<Rightarrow> string" where
  "rule_prefix r = takeWhile (\<lambda>c. c \<noteq> CHR ''<'') r"

definition path_value :: "string \<Rightarrow> bool" where
  "path_value t \<longleftrightarrow> t \<noteq> [] \<and> hd t \<noteq> CHR ''/'' \<and> CHR 0x0A \<notin> set (tl t)"

definition fits :: "string \<Rightarrow> string \<Rightarrow> bool" where
  "fits r pp \<longleftrightarrow>
     (if has_converter r
      then take (length (rule_prefix r)) pp = rule_prefix r \<and>
           path_value (drop (length (rule_prefix r)) pp)
      else pp = r)"

text \<open>
  One rule against one path and one HTTP verb: the rule is hit; or the path lacks only
  the slash that ends the rule (then the framework redirects, for a verb of the rule);
  or the path fits but the verb is not one of the rule's; or nothing.
\<close>

datatype fit = Hit | Slash | Wrong_Method | Miss

definition fit_rule :: "rule \<Rightarrow> string \<Rightarrow> http_method \<Rightarrow> fit" where
  "fit_rule r pp m =
     (if fits (rule_path r) pp
      then (if m \<in> set (rule_methods r) then Hit else Wrong_Method)
      else if \<not> has_converter (rule_path r) \<and> rule_path r = pp @ ''/'' \<and>
              m \<in> set (rule_methods r)
      then Slash
      else Miss)"

datatype attempt = Found rule | Slash_Required | No_Rule bool

definition match_path :: "rule list \<Rightarrow> string \<Rightarrow> http_method \<Rightarrow> attempt" where
  "match_path rules pp m =
     (case filter (\<lambda>r. fit_rule r pp m = Hit) rules of
        r # rs \<Rightarrow> Found r
      | [] \<Rightarrow>
          if list_ex (\<lambda>r. fit_rule r pp m = Slash) rules then Slash_Required
          else No_Rule (list_ex (\<lambda>r. fit_rule r pp m = Wrong_Method) rules))"

text \<open>
  When no rule is found the path is tried again with every pair of slashes replaced by
  one slash, from left to right.
\<close>

fun merge_slashes :: "string \<Rightarrow> string" where
  "merge_slashes (c # d # cs) =
     (if c = CHR ''/'' \<and> d = CHR ''/'' then CHR ''/'' # merge_slashes cs
      else c # merge_slashes (d # cs))"
| "merge_slashes cs = cs"

text \<open>
  The outcome: the rule found; a 308 redirect where a slash is required or where only
  the path with merged slashes has a rule; else 405 if some rule fitted the path but
  not the verb, and 404 if none did.
\<close>

definition url_match :: "rule list \<Rightarrow> request \<Rightarrow> nat + rule" where
  "url_match rules req =
     (let pp = routed_path (path req); m = request_method req
      in case match_path rules pp m of
           Found r \<Rightarrow> Inr r
         | Slash_Required \<Rightarrow> Inl 308
         | No_Rule w \<Rightarrow>
             (case match_path rules (merge_slashes pp) m of
                Found r \<Rightarrow> Inl 308
              | Slash_Required \<Rightarrow> Inl 308
              | No_Rule w' \<Rightarrow> if w \<or> w' then Inl 405 else Inl 404))"

text \<open>A returned string becomes a response with status 200; an integer is refused.\<close>

definition make_response :: "pyval \<Rightarrow> error + response" where
  "make_response rv = (case rv of PyStr s \<Rightarrow> Inr (Response 200 s) | PyInt i \<Rightarrow> Inl TypeError)"

fun strip_body :: "response \<Rightarrow> response" where
  "strip_body (Response st b) = Response st []"
| "strip_body (Framework_Error st) = Framework_Error st"

text \<open>An exception of a view: \<^verbatim>\<open>NotFound\<close> is the 404 page, any other is a 500.\<close>

fun error_status :: "error \<Rightarrow> nat" where
  "error_status NotFound = 404"
| "error_status e = 500"

text \<open>
  One request: match, answer \<^verbatim>\<open>OPTIONS\<close> automatically where the rule says so,
  otherwise call the view; the body of the answer to a \<^verbatim>\<open>HEAD\<close> request is dropped.
\<close>

definition wsgi_app :: "flask \<Rightarrow> request \<Rightarrow> proc \<Rightarrow> response \<times> proc" where
  "wsgi_app a req st =
     (case url_match (url_map a) req of
        Inl code \<Rightarrow> (Framework_Error code, st)
      | Inr r \<Rightarrow>
          if provide_automatic_options r \<and> request_method req = OPTIONS then (Response 200 [], st)
          else
            (case view_functions a (endpoint r) of
               None \<Rightarrow> (Framework_Error 500, st)
             | Some f \<Rightarrow>
                 (case f req st of
                    (Inl e, st') \<Rightarrow> (Framework_Error (error_status e), st')
                  | (Inr rv, st') \<Rightarrow>
                      (case make_response rv of
                         Inl e \<Rightarrow> (Framework_Error 500, st')
                       | Inr resp \<Rightarrow>
                           (if request_method req = HEAD then strip_body resp else resp, st')))))"

text \<open>
  The server loop, on the requests that reach the application: each is dispatched in
  turn. With \<^verbatim>\<open>debug=True\<close> the framework puts its debugger in front of the
  application; the requests that the debugger answers itself (its console and its
  resources) never reach the application and are not in the list.
\<close>

fun serve :: "flask \<Rightarrow> request list \<Rightarrow> proc \<Rightarrow> response list \<times> proc" where
  "serve a [] st = ([], st)"
| "serve a (req # reqs) st =
     (case wsgi_app a req st of
        (resp, st') \<Rightarrow> (case serve a reqs st' of (resps, st'') \<Rightarrow> (resp # resps, st'')))"

text \<open>
  What the socket layer makes of the port it is given (CPython on 64-bit Linux with
  glibc): a port number from 0 to 65535 is bound as it is. Any other integer goes
  through address resolution first. An integer that does not fit a C \<^verbatim>\<open>long\<close> is an
  \<^verbatim>\<open>OverflowError\<close>. Otherwise the resolver reads the number into a 32-bit integer:
  when that is not negative its low 16 bits are the port bound, and when it is negative
  resolution fails, the integer itself is given to \<^verbatim>\<open>bind\<close>, and \<^verbatim>\<open>bind\<close> raises
  \<^verbatim>\<open>OverflowError\<close>.
\<close>

definition sockaddr_port :: "int \<Rightarrow> error + int" where
  "sockaddr_port p =
     (if 0 \<le> p \<and> p \<le> 65535 then Inr p
      else if p < - (2 ^ 63) \<or> 2 ^ 63 \<le> p then Inl OverflowError
      else if p mod 2 ^ 32 < 2 ^ 31 then Inr (p mod 65536)
      else Inl OverflowError)"

text \<open>
  \<^verbatim>\<open>app.run\<close>: bind the socket, which may raise, then serve. The effect logged is
  the address bound.
\<close>

definition run ::
  "flask \<Rightarrow> bool \<Rightarrow> string \<Rightarrow> int \<Rightarrow> request list \<Rightarrow> proc \<Rightarrow> (error + response list) \<times> proc" where
  "run a debug host p reqs st =
     (case sockaddr_port p of
        Inl e \<Rightarrow> (Inl e, st)
      | Inr q \<Rightarrow>
          (case serve a reqs (st\<lparr>trace := trace st @ [Listen host q debug]\<rparr>) of
             (resps, st') \<Rightarrow> (Inr resps, st')))"

section \<open>The module\<close>

definition greeting :: string where
  "greeting = ''Hello, World! This is version 1.0!''"

definition hello :: view where
  "hello req st = (Inr (PyStr greeting), st)"

definition app :: flask where
  "app = route ''/'' ''hello'' hello Flask"

text \<open>Line 12: \<^verbatim>\<open>port = int(os.environ.get("PORT", 5000))\<close>.\<close>

definition resolve_port :: "nat \<Rightarrow> (string \<rightharpoonup> string) \<Rightarrow> error + int" where
  "resolve_port lim environ = py_int lim (environ_get environ ''PORT'' (PyInt 5000))"

text \<open>
  The block under \<^verbatim>\<open>__main__\<close>: an exception of line 12 ends the process there, in the
  state it had; otherwise \<^verbatim>\<open>port\<close> is bound and line 13 runs the server, which may
  raise in its turn.
\<close>

definition main ::
  "nat \<Rightarrow> (string \<rightharpoonup> string) \<Rightarrow> request list \<Rightarrow> proc \<Rightarrow> (error + response list) \<times> proc" where
  "main lim environ reqs st =
     (case resolve_port lim environ of
        Inl e \<Rightarrow> (Inl e, st)
      | Inr p \<Rightarrow> run app True ''0.0.0.0'' p reqs (st\<lparr>port := Some p\<rparr>))"

text \<open>The state after a start on port \<open>p\<close>: the name is bound, the server listens.\<close>

definition started :: "int \<Rightarrow> proc \<Rightarrow> proc" where
  "started p st = st\<lparr>port := Some p, trace := trace st @ [Listen ''0.0.0.0'' p True]\<rparr>"

section \<open>Facts about the conversion\<close>


lemma digit_not_space: "py_isdigit c \<Longrightarrow> \<not> py_isspace c"
  by (auto simp: py_isdigit_def py_isspace_def)

lemma digit_not_sign:
  "py_isdigit c \<Longrightarrow> c \<noteq> CHR ''+'' \<and> c \<noteq> CHR ''-'' \<and> c \<noteq> CHR ''_''"
  by (auto simp: py_isdigit_def)

lemma space_not_numeric: "py_isspace c \<Longrightarrow> \<not> numeric c"
  by (auto simp: py_isdigit_def py_isspace_def numeric_def)

lemma sign_not_space: "\<not> py_isspace CHR ''+''" "\<not> py_isspace CHR ''-''"
  by (simp_all add: py_isspace_def)

lemma alpha_other:
  "py_isalpha c \<Longrightarrow> \<not> py_isspace c \<and> \<not> numeric c \<and> c \<noteq> CHR ''+'' \<and> c \<noteq> CHR ''-''"
  by (auto simp: py_isalpha_def py_isspace_def numeric_def py_isdigit_def)








lemma underscores_ok_digits: "\<forall>c\<in>set ds. py_isdigit c \<Longrightarrow> underscores_ok ds"
  by (induction ds rule: underscores_ok.induct) (auto dest: digit_not_sign)

lemma numeric_run:
  assumes "\<forall>c\<in>set ds. py_isdigit c" and "\<forall>c\<in>set ws. py_isspace c"
  shows "takeWhile numeric (ds @ ws) = ds" and "dropWhile numeric (ds @ ws) = ws"
proof -
  have 1: "\<forall>c\<in>set ds. numeric c" using assms(1) by (simp add: numeric_def)
  have 2: "takeWhile numeric ws = []" "dropWhile numeric ws = ws"
    using assms(2) by (cases ws; simp add: space_not_numeric)+
  show "takeWhile numeric (ds @ ws) = ds" using 1 2 by simp
  show "dropWhile numeric (ds @ ws) = ws" using 1 2 by simp
qed

lemma int_of_str_unsigned:
  assumes ws1: "\<forall>c\<in>set ws1. py_isspace c" and ws2: "\<forall>c\<in>set ws2. py_isspace c"
    and ds: "ds \<noteq> []" "\<forall>c\<in>set ds. py_isdigit c" and lim: "within_limit lim (length ds)"
  shows "int_of_str lim (ws1 @ ds @ ws2) = Inr (decimal_value ds)"
proof -
  obtain d ds' where d: "ds = d # ds'" using ds(1) by (cases ds) auto
  have dd: "py_isdigit d" using ds(2) d by simp
  have 1: "dropWhile py_isspace (ws1 @ ds @ ws2) = ds @ ws2"
    using ws1 dd d by (simp add: digit_not_space)
  have 2: "hd (ds @ ws2) \<noteq> CHR ''+''" "hd (ds @ ws2) \<noteq> CHR ''-''" "hd ds \<noteq> CHR ''_''"
    using d dd digit_not_sign by auto
  have 3: "filter py_isdigit ds = ds" using ds(2) by simp
  have 4: "\<not> (640 < length ds \<and> 0 < lim \<and> lim < length ds)"
    using lim by (auto simp: within_limit_def)
  show ?thesis
    unfolding int_of_str_def Let_def 1
    using 2 3 4 ds(1) underscores_ok_digits [OF ds(2)] ws2
    by (simp add: numeric_run [OF ds(2) ws2])
qed

lemma int_of_str_signed:
  assumes ws1: "\<forall>c\<in>set ws1. py_isspace c" and ws2: "\<forall>c\<in>set ws2. py_isspace c"
    and ds: "ds \<noteq> []" "\<forall>c\<in>set ds. py_isdigit c" and lim: "within_limit lim (length ds)"
    and sg: "sg = CHR ''+'' \<or> sg = CHR ''-''"
  shows "int_of_str lim (ws1 @ sg # ds @ ws2) =
    Inr (if sg = CHR ''-'' then - decimal_value ds else decimal_value ds)"
proof -
  have 1: "dropWhile py_isspace (ws1 @ sg # ds @ ws2) = sg # ds @ ws2"
    using ws1 sg sign_not_space by auto
  have 2: "hd ds \<noteq> CHR ''_''"
    using ds digit_not_sign by (cases ds) auto
  have 3: "filter py_isdigit ds = ds" using ds(2) by simp
  have 4: "\<not> (640 < length ds \<and> 0 < lim \<and> lim < length ds)"
    using lim by (auto simp: within_limit_def)
  show ?thesis
    unfolding int_of_str_def Let_def 1
    using 2 3 4 sg ds(1) underscores_ok_digits [OF ds(2)] ws2
    by (auto simp add: numeric_run [OF ds(2) ws2])
qed


lemma in_dropWhile: "c \<in> set xs \<Longrightarrow> \<not> P c \<Longrightarrow> c \<in> set (dropWhile P xs)"
  by (induction xs) auto

text \<open>A letter anywhere in the string makes the conversion fail.\<close>

lemma int_of_str_alpha:
  assumes "c \<in> set s" and "py_isalpha c"
  shows "int_of_str lim s = Inl ValueError"
proof -
  note a = alpha_other [OF assms(2)]
  define t where "t = dropWhile py_isspace s"
  define u where "u = (if t \<noteq> [] \<and> (hd t = CHR ''+'' \<or> hd t = CHR ''-'') then tl t else t)"
  have 1: "c \<in> set t" unfolding t_def using assms(1) a by (simp add: in_dropWhile)
  have 2: "c \<in> set u" unfolding u_def using 1 a by (cases t) auto
  have 3: "c \<in> set (dropWhile numeric u)" using 2 a by (simp add: in_dropWhile)
  have 4: "c \<in> set (dropWhile py_isspace (dropWhile numeric u))"
    using 3 a by (simp add: in_dropWhile)
  have 5: "dropWhile py_isspace (dropWhile numeric u) \<noteq> []"
  proof
    assume "dropWhile py_isspace (dropWhile numeric u) = []"
    with 4 show False by simp
  qed
  show ?thesis
    unfolding int_of_str_def Let_def t_def [symmetric] u_def [symmetric]
    using 5 by simp
qed

lemma guarded_error:
  "(if a then Inl ValueError else if b then Inl ValueError else if c then Inl ValueError
    else Inr x) = Inl e \<Longrightarrow> e = ValueError"
  by (simp split: if_splits)

lemma int_of_str_error: "int_of_str lim s = Inl e \<Longrightarrow> e = ValueError"
  unfolding int_of_str_def Let_def by (rule guarded_error)

lemma resolve_port_unset: "environ ''PORT'' = None \<Longrightarrow> resolve_port lim environ = Inr 5000"
  by (simp add: resolve_port_def environ_get_def py_int_def)

lemma resolve_port_set:
  "environ ''PORT'' = Some s \<Longrightarrow> resolve_port lim environ = int_of_str lim s"
  by (simp add: resolve_port_def environ_get_def py_int_def)

section \<open>Facts about dispatch and startup\<close>

lemma app_url_map:
  "url_map app =
     [\<lparr>rule_path = ''/static/<path:filename>'', rule_methods = [GET, OPTIONS, HEAD],
       endpoint = ''static'', provide_automatic_options = True\<rparr>,
      \<lparr>rule_path = ''/'', rule_methods = [GET, OPTIONS, HEAD], endpoint = ''hello'',
       provide_automatic_options = True\<rparr>]"
  by (simp add: app_def route_def add_url_rule_def Flask_def)

lemma app_view_functions:
  "view_functions app ''hello'' = Some hello"
  "view_functions app ''static'' = Some send_static_file"
  by (simp_all add: app_def route_def add_url_rule_def Flask_def)

lemma fit_hello:
  "fit_rule \<lparr>rule_path = ''/'', rule_methods = [GET, OPTIONS, HEAD], endpoint = ''hello'',
       provide_automatic_options = True\<rparr> pp m =
     (if pp = ''/'' then (if m \<in> {GET, OPTIONS, HEAD} then Hit else Wrong_Method)
      else if pp = [] \<and> m \<in> {GET, OPTIONS, HEAD} then Slash else Miss)"
  by (auto simp: fit_rule_def fits_def has_converter_def)

lemma static_prefix:
  "has_converter ''/static/<path:filename>''"
  "rule_prefix ''/static/<path:filename>'' = ''/static/''"
  by (simp_all add: has_converter_def rule_prefix_def)

lemma fit_static:
  "fit_rule \<lparr>rule_path = ''/static/<path:filename>'', rule_methods = [GET, OPTIONS, HEAD],
       endpoint = ''static'', provide_automatic_options = True\<rparr> pp m =
     (if take (length ''/static/'') pp = ''/static/'' \<and> path_value (drop (length ''/static/'') pp)
      then (if m \<in> {GET, OPTIONS, HEAD} then Hit else Wrong_Method) else Miss)"
  by (auto simp: fit_rule_def fits_def static_prefix)

lemma match_path_app:
  "match_path (url_map app) pp m =
     (if take (length ''/static/'') pp = ''/static/'' \<and> path_value (drop (length ''/static/'') pp)
      then (if m \<in> {GET, OPTIONS, HEAD}
            then Found \<lparr>rule_path = ''/static/<path:filename>'',
                   rule_methods = [GET, OPTIONS, HEAD], endpoint = ''static'',
                   provide_automatic_options = True\<rparr>
            else No_Rule True)
      else if pp = ''/''
      then (if m \<in> {GET, OPTIONS, HEAD}
            then Found \<lparr>rule_path = ''/'', rule_methods = [GET, OPTIONS, HEAD],
                   endpoint = ''hello'', provide_automatic_options = True\<rparr>
            else No_Rule True)
      else if pp = [] \<and> m \<in> {GET, OPTIONS, HEAD} then Slash_Required
      else No_Rule False)"
  unfolding match_path_def app_url_map
  by (simp add: fit_hello fit_static)



lemma url_match_root:
  assumes "routed_path (path req) = ''/''"
  shows "url_match (url_map app) req =
     (if request_method req \<in> {GET, OPTIONS, HEAD}
      then Inr \<lparr>rule_path = ''/'', rule_methods = [GET, OPTIONS, HEAD], endpoint = ''hello'',
             provide_automatic_options = True\<rparr>
      else Inl 405)"
  using assms by (simp add: url_match_def match_path_app)

lemma url_match_other:
  assumes "routed_path (path req) \<noteq> ''/''"
  shows "url_match (url_map app) req \<in>
     {Inl 404, Inl 405, Inl 308,
      Inr \<lparr>rule_path = ''/static/<path:filename>'', rule_methods = [GET, OPTIONS, HEAD],
        endpoint = ''static'', provide_automatic_options = True\<rparr>}"
  using assms by (simp add: url_match_def Let_def match_path_app)

lemma wsgi_app_root:
  assumes "routed_path (path req) = ''/''"
  shows "wsgi_app app req st =
     (if request_method req = GET then Response 200 greeting
      else if request_method req = HEAD \<or> request_method req = OPTIONS then Response 200 []
      else Framework_Error 405, st)"
  by (cases "request_method req")
    (simp_all add: wsgi_app_def url_match_root [OF assms] app_view_functions hello_def
      make_response_def)

lemma wsgi_app_static:
  assumes "url_match (url_map app) req =
     Inr \<lparr>rule_path = ''/static/<path:filename>'', rule_methods = [GET, OPTIONS, HEAD],
        endpoint = ''static'', provide_automatic_options = True\<rparr>"
  shows "wsgi_app app req st =
     (if request_method req = OPTIONS then Response 200 [] else Framework_Error 404, st)"
  by (simp add: wsgi_app_def assms app_view_functions send_static_file_def)

lemma wsgi_app_other:
  assumes "routed_path (path req) \<noteq> ''/''"
  shows "wsgi_app app req st \<in>
     {(Framework_Error 404, st), (Framework_Error 405, st), (Framework_Error 308, st),
      (Response 200 [], st)}"
proof -
  consider "url_match (url_map app) req = Inl 404" | "url_match (url_map app) req = Inl 405"
    | "url_match (url_map app) req = Inl 308"
    | "url_match (url_map app) req =
        Inr \<lparr>rule_path = ''/static/<path:filename>'', rule_methods = [GET, OPTIONS, HEAD],
          endpoint = ''static'', provide_automatic_options = True\<rparr>"
    using url_match_other [OF assms] by blast
  then show ?thesis
  proof cases
    case 1
    then show ?thesis by (simp add: wsgi_app_def)
  next
    case 2
    then show ?thesis by (simp add: wsgi_app_def)
  next
    case 3
    then show ?thesis by (simp add: wsgi_app_def)
  next
    case 4
    then show ?thesis by (simp add: wsgi_app_static)
  qed
qed

lemma wsgi_app_state: "snd (wsgi_app app req st) = st"
proof (cases "routed_path (path req) = ''/''")
  case True
  then show ?thesis by (simp add: wsgi_app_root)
next
  case False
  then show ?thesis using wsgi_app_other [OF False, of st] by auto
qed

lemma serve_state: "snd (serve app reqs st) = st"
proof (induction reqs arbitrary: st)
  case Nil
  show ?case by simp
next
  case (Cons req reqs)
  obtain resp where 1: "wsgi_app app req st = (resp, st)"
    using wsgi_app_state [of req st] by (cases "wsgi_app app req st") simp
  obtain resps where 2: "serve app reqs st = (resps, st)"
    using Cons.IH [of st] by (cases "serve app reqs st") simp
  show ?case by (simp add: 1 2)
qed

lemma sockaddr_port_in_range: "0 \<le> p \<Longrightarrow> p \<le> 65535 \<Longrightarrow> sockaddr_port p = Inr p"
  by (simp add: sockaddr_port_def)

lemma main_started:
  assumes "resolve_port lim environ = Inr p" and "0 \<le> p" and "p \<le> 65535"
  shows "main lim environ reqs st = (Inr (fst (serve app reqs (started p st))), started p st)"
proof -
  obtain resps where 1: "serve app reqs (started p st) = (resps, started p st)"
    using serve_state [of reqs "started p st"] by (cases "serve app reqs (started p st)") simp
  show ?thesis
    using assms(1) 1 sockaddr_port_in_range [OF assms(2,3)]
    by (simp add: main_def run_def started_def)
qed

lemma main_failed:
  assumes "resolve_port lim environ = Inl e"
  shows "main lim environ reqs st = (Inl e, st)"
  using assms by (simp add: main_def)


section \<open>The root handler\<close>








text \<open>
  C7. The handler returns its fixed string for every request and in every state: it does
  not raise, and the state it leaves (the bound name and the log of effects) is the state
  it found. The same holds of the dispatch of any request to the application.
\<close>

theorem hello_pure:
  "hello req st = (Inr (PyStr ''Hello, World! This is version 1.0!''), st) \<and>
   snd (wsgi_app app req st) = st"
  by (simp add: hello_def greeting_def wsgi_app_state)

theorem hello_pure_witness:
  "hello \<lparr>request_method = GET, path = ''/'', query_string = ''n=1'', headers = [], data = []\<rparr>
      \<lparr>port = Some 8080, trace = [Listen ''0.0.0.0'' 8080 True]\<rparr> =
     (Inr (PyStr ''Hello, World! This is version 1.0!''),
      \<lparr>port = Some 8080, trace = [Listen ''0.0.0.0'' 8080 True]\<rparr>)"
  using hello_pure [of "\<lparr>request_method = GET, path = ''/'', query_string = ''n=1'', headers = [],
      data = []\<rparr>" "\<lparr>port = Some 8080, trace = [Listen ''0.0.0.0'' 8080 True]\<rparr>"]
  by simp



section \<open>Startup\<close>

text \<open>
  C2. With \<open>PORT\<close> unset, line 12 yields 5000, and the process binds the name to 5000
  and asks the framework to listen on \<open>0.0.0.0\<close>, port 5000.
\<close>

theorem port_default:
  assumes "environ ''PORT'' = None"
  shows "resolve_port lim environ = Inr 5000 \<and>
         main lim environ reqs st = (Inr (fst (serve app reqs (started 5000 st))), started 5000 st) \<and>
         started 5000 st = st\<lparr>port := Some 5000, trace := trace st @ [Listen ''0.0.0.0'' 5000 True]\<rparr>"
proof -
  have 1: "resolve_port lim environ = Inr 5000"
    using assms by (rule resolve_port_unset)
  show ?thesis
    using 1 main_started [OF 1] by (simp add: started_def)
qed

theorem port_default_witness:
  "[''HOME'' \<mapsto> ''/root''] ''PORT'' = None \<and>
   resolve_port 4300 [''HOME'' \<mapsto> ''/root''] = Inr 5000 \<and>
   main 4300 [''HOME'' \<mapsto> ''/root''] [] \<lparr>port = None, trace = []\<rparr> =
     (Inr [], \<lparr>port = Some 5000, trace = [Listen ''0.0.0.0'' 5000 True]\<rparr>)"
  using port_default [of "[''HOME'' \<mapsto> ''/root'']" 4300 "[]" "\<lparr>port = None, trace = []\<rparr>"]
  by (simp add: started_def)




text \<open>
  C4. With \<open>PORT\<close> set to a string that \<^verbatim>\<open>int\<close> refuses (any string with a letter in
  it is one), line 12 raises \<^verbatim>\<open>ValueError\<close> and the process ends in the state it was
  in: the name stays unbound and nothing is asked to listen.
\<close>

theorem unparseable_port_fails:
  assumes "environ ''PORT'' = Some s"
    and "int_of_str lim s = Inl e \<or> (\<exists>c\<in>set s. py_isalpha c)"
  shows "resolve_port lim environ = Inl ValueError \<and>
         main lim environ reqs st = (Inl ValueError, st)"
proof -
  have "int_of_str lim s = Inl ValueError"
    using assms(2) int_of_str_error int_of_str_alpha by blast
  then have 1: "resolve_port lim environ = Inl ValueError"
    using assms(1) by (simp add: resolve_port_set)
  show ?thesis
    using 1 main_failed [OF 1] by simp
qed

theorem unparseable_port_fails_witness:
  "[''PORT'' \<mapsto> ''abc''] ''PORT'' = Some ''abc'' \<and>
   (\<exists>c\<in>set ''abc''. py_isalpha c) \<and>
   resolve_port 4300 [''PORT'' \<mapsto> ''abc''] = Inl ValueError \<and>
   main 4300 [''PORT'' \<mapsto> ''abc''] [] \<lparr>port = None, trace = []\<rparr> =
     (Inl ValueError, \<lparr>port = None, trace = []\<rparr>)"
proof -
  have 1: "\<exists>c\<in>set ''abc''. py_isalpha c"
    by (simp add: py_isalpha_def)
  show ?thesis
    using 1 unparseable_port_fails [of "[''PORT'' \<mapsto> ''abc'']" "''abc''" 4300 ValueError "[]"
      "\<lparr>port = None, trace = []\<rparr>"]
    by simp
qed




text \<open>
  C9. Line 12 accepts more than port numbers: white space on either side, a sign, and
  any magnitude. Such a value passes the conversion with the integer it denotes, be it
  negative or above 65535: there is no \<^verbatim>\<open>ValueError\<close> at startup.
\<close>

theorem lenient_port_accepted:
  assumes "environ ''PORT'' = Some (ws1 @ sg @ ds @ ws2)"
    and "\<forall>c\<in>set ws1. py_isspace c" and "\<forall>c\<in>set ws2. py_isspace c"
    and "sg = [] \<or> sg = ''+'' \<or> sg = ''-''"
    and "ds \<noteq> []" and "\<forall>c\<in>set ds. py_isdigit c" and "within_limit lim (length ds)"
    and "p = (if sg = ''-'' then - decimal_value ds else decimal_value ds)"
  shows "resolve_port lim environ = Inr p"
proof -
  have "int_of_str lim (ws1 @ sg @ ds @ ws2) = Inr p"
  proof (cases "sg = []")
    case True
    then show ?thesis
      using int_of_str_unsigned [OF assms(2,3,5,6,7)] assms(8) by simp
  next
    case False
    then obtain c where c: "sg = [c]" "c = CHR ''+'' \<or> c = CHR ''-''"
      using assms(4) by auto
    show ?thesis
      using int_of_str_signed [OF assms(2,3,5,6,7) c(2)] assms(8) c by auto
  qed
  then show ?thesis
    using assms(1) by (simp add: resolve_port_set)
qed

theorem lenient_port_accepted_witness:
  "resolve_port 4300 [''PORT'' \<mapsto> ''-1''] = Inr (- 1) \<and>
   resolve_port 4300 [''PORT'' \<mapsto> '' 8080 ''] = Inr 8080 \<and>
   resolve_port 4300 [''PORT'' \<mapsto> ''99999''] = Inr 99999"
  using
    lenient_port_accepted [of "[''PORT'' \<mapsto> ''-1'']" "[]" "''-''" "''1''" "[]" 4300 "- 1"]
    lenient_port_accepted [of "[''PORT'' \<mapsto> '' 8080 '']" "'' ''" "[]" "''8080''" "'' ''" 4300
      8080]
    lenient_port_accepted [of "[''PORT'' \<mapsto> ''99999'']" "[]" "[]" "''99999''" "[]" 4300 99999]
  by (simp add: py_isspace_def py_isdigit_def within_limit_def decimal_value_def
      digit_value_def)

end
